theory Spec2Isabelle
  imports Main "HOL-Library.Word"
begin

section \<open>Durations\<close>

text \<open>
  Go's \<open>time.Duration\<close> is a signed 64-bit count of nanoseconds; \<open>sint\<close> reads
  the value. The unit constants are those of package \<open>time\<close>.
\<close>

type_synonym Duration = "64 word"

definition Nanosecond :: Duration where
  "Nanosecond = 1"

definition Microsecond :: Duration where
  "Microsecond = 1000 * Nanosecond"

definition Millisecond :: Duration where
  "Millisecond = 1000 * Microsecond"

definition Second :: Duration where
  "Second = 1000 * Millisecond"

section \<open>Errors\<close>

text \<open>
  A Go \<open>error\<close> value is modelled by the kind of error and its message; a return
  value of type \<open>error\<close> is an \<open>error option\<close>, \<open>None\<close> being \<open>nil\<close>.
  \<open>Errorf\<close> is an error made by \<open>fmt.Errorf\<close>, \<open>OpError\<close> one reported by
  package \<open>net\<close>, \<open>ErrServerClosed\<close> the sentinel of package \<open>net/http\<close>.
\<close>

datatype error =
    Errorf string
  | OpError string
  | AddrError string string
  | ErrServerClosed
  | DeadlineExceeded

fun Error :: "error \<Rightarrow> string" where
  "Error (Errorf m) = m"
| "Error (OpError m) = m"
| "Error (AddrError addr why) = ''address '' @ addr @ '': '' @ why"
| "Error ErrServerClosed = ''http: Server closed''"
| "Error DeadlineExceeded = ''context deadline exceeded''"

text \<open>
  A call either returns a value, never returns (it blocks for ever), or panics.
\<close>

datatype panic = NilPointerDereference

datatype 'a outcome = Returns 'a | Blocks | Panics panic

section \<open>URLs and requests\<close>

text \<open>The fields of \<open>url.URL\<close> that the proxy reads or writes.\<close>

record URL =
  Scheme :: string
  Host :: string
  Path :: string
  RawPath :: string
  RawQuery :: string

text \<open>
  \<open>http.Header\<close> maps a canonical header name to its values. The server stores the
  headers of an inbound request under their canonical names. \<open>Set\<close> and \<open>Del\<close>
  are the methods of that name.
\<close>

type_synonym Header = "string \<rightharpoonup> string list"

definition Header_Set :: "Header \<Rightarrow> string \<Rightarrow> string \<Rightarrow> Header" where
  "Header_Set h k v = h(k \<mapsto> [v])"

definition Header_Del :: "Header \<Rightarrow> string \<Rightarrow> Header" where
  "Header_Del h k = h(k := None)"

text \<open>
  \<open>http.Request\<close>: the URL, the \<open>Host\<close> field, the headers, the address of the
  peer (\<open>RemoteAddr\<close>), whether the connection is encrypted (\<open>TLS\<close> is not
  \<open>nil\<close>) and whether the form has been parsed (\<open>Form\<close> is not \<open>nil\<close>).
\<close>

record Request =
  req_URL :: URL
  req_Host :: string
  req_Header :: Header
  RemoteAddr :: string
  TLS :: bool
  FormParsed :: bool

text \<open>\<open>httputil.ProxyRequest\<close>: the inbound request and the outbound one.\<close>

record ProxyRequest =
  In :: Request
  Out :: Request

text \<open>The origin's response, and what the handler writes to the client.\<close>

record Response =
  StatusCode :: nat
  Body :: string



section \<open>Library functions the handler calls\<close>

text \<open>
  Functions of the Go library that the model takes as given: \<open>EscapedPath\<close> is the
  method of \<open>url.URL\<close>; \<open>reencode\<close> is \<open>url.ParseQuery\<close> followed by
  \<open>Values.Encode\<close>; \<open>connectionHeaders\<close> is the handling of hop-by-hop,
  \<open>Te\<close> and \<open>Upgrade\<close> headers (from the inbound and the outbound headers to
  the outbound headers, or the error for an unprintable upgrade protocol);
  \<open>handleUpgradeResponse\<close> is the relay of a protocol switch.
\<close>

record stdlib =
  EscapedPath :: "URL \<Rightarrow> string"
  reencode :: "string \<Rightarrow> string"
  connectionHeaders :: "Header \<Rightarrow> Header \<Rightarrow> error + Header"
  handleUpgradeResponse :: "Request \<Rightarrow> Response \<Rightarrow> Response"

subsection \<open>\<open>strings\<close> and \<open>net.SplitHostPort\<close>\<close>

fun IndexByte :: "string \<Rightarrow> char \<Rightarrow> int" where
  "IndexByte [] c = - 1"
| "IndexByte (x # xs) c =
     (if x = c then 0 else (let i = IndexByte xs c in if i < 0 then - 1 else i + 1))"

definition LastIndexByte :: "string \<Rightarrow> char \<Rightarrow> int" where
  "LastIndexByte s c =
     (let i = IndexByte (rev s) c in if i < 0 then - 1 else int (length s) - 1 - i)"

definition HasPrefix :: "string \<Rightarrow> string \<Rightarrow> bool" where
  "HasPrefix s p = (take (length p) s = p)"

definition HasSuffix :: "string \<Rightarrow> string \<Rightarrow> bool" where
  "HasSuffix s p = (length p \<le> length s \<and> drop (length s - length p) s = p)"

fun Join :: "string list \<Rightarrow> string \<Rightarrow> string" where
  "Join [] sep = []"
| "Join [x] sep = x"
| "Join (x # y # ys) sep = x @ sep @ Join (y # ys) sep"

text \<open>\<open>s[i:j]\<close> and \<open>s[i:]\<close> for indices within the string.\<close>

definition slice :: "string \<Rightarrow> int \<Rightarrow> int \<Rightarrow> string" where
  "slice s i j = take (nat (j - i)) (drop (nat i) s)"

definition slice_from :: "string \<Rightarrow> int \<Rightarrow> string" where
  "slice_from s i = drop (nat i) s"

text \<open>
  \<open>net.SplitHostPort\<close> splits \<open>host:port\<close>, \<open>[host]:port\<close> and the like into
  host and port; the error carries the reason. Past the first test the string is not
  empty, and \<open>e + 1\<close> is an index of it where it is read.
\<close>

definition SplitHostPort :: "string \<Rightarrow> error + string \<times> string" where
  "SplitHostPort hostport =
     (let i = LastIndexByte hostport (CHR '':'') in
      if i < 0 then Inl (AddrError hostport ''missing port in address'')
      else if hd hostport = CHR ''['' then
        (let e = IndexByte hostport (CHR '']'') in
         if e < 0 then Inl (AddrError hostport ''missing ']' in address'')
         else if e + 1 = int (length hostport)
           then Inl (AddrError hostport ''missing port in address'')
         else if e + 1 \<noteq> i then
           (if hostport ! nat (e + 1) = CHR '':''
            then Inl (AddrError hostport ''too many colons in address'')
            else Inl (AddrError hostport ''missing port in address''))
         else if 0 \<le> IndexByte (slice_from hostport 1) (CHR ''['')
           then Inl (AddrError hostport ''unexpected '[' in address'')
         else if 0 \<le> IndexByte (slice_from hostport (e + 1)) (CHR '']'')
           then Inl (AddrError hostport ''unexpected ']' in address'')
         else Inr (slice hostport 1 e, slice_from hostport (i + 1)))
      else
        (let host = slice hostport 0 i in
         if 0 \<le> IndexByte host (CHR '':'')
           then Inl (AddrError hostport ''too many colons in address'')
         else if 0 \<le> IndexByte hostport (CHR ''['')
           then Inl (AddrError hostport ''unexpected '[' in address'')
         else if 0 \<le> IndexByte hostport (CHR '']'')
           then Inl (AddrError hostport ''unexpected ']' in address'')
         else Inr (host, slice_from hostport (i + 1))))"

subsection \<open>\<open>net/http/httputil\<close>: rewriting the outbound request\<close>

definition ishex :: "char \<Rightarrow> bool" where
  "ishex c = (c \<in> set ''0123456789abcdefABCDEF'')"

text \<open>
  The scan of \<open>cleanQueryParams\<close>: a semicolon, or a percent sign that is not
  followed by two hexadecimal digits, sends the query to \<open>reencode\<close>.
\<close>

fun unparsable :: "string \<Rightarrow> bool" where
  "unparsable [] = False"
| "unparsable (c # cs) =
     (if c = CHR '';'' then True
      else if c = CHR ''%'' then
        (case cs of
           a # b # rest \<Rightarrow> (if ishex a \<and> ishex b then unparsable rest else True)
         | _ \<Rightarrow> True)
      else unparsable cs)"

definition cleanQueryParams :: "stdlib \<Rightarrow> string \<Rightarrow> string" where
  "cleanQueryParams lib s = (if unparsable s then reencode lib s else s)"

definition singleJoiningSlash :: "string \<Rightarrow> string \<Rightarrow> string" where
  "singleJoiningSlash a b =
     (let aslash = HasSuffix a ''/''; bslash = HasPrefix b ''/'' in
      if aslash \<and> bslash then a @ slice_from b 1
      else if \<not> aslash \<and> \<not> bslash then a @ ''/'' @ b
      else a @ b)"

definition joinURLPath :: "stdlib \<Rightarrow> URL \<Rightarrow> URL \<Rightarrow> string \<times> string" where
  "joinURLPath lib a b =
     (if RawPath a = '''' \<and> RawPath b = '''' then (singleJoiningSlash (Path a) (Path b), '''')
      else
        (let apath = EscapedPath lib a; bpath = EscapedPath lib b;
             aslash = HasSuffix apath ''/''; bslash = HasPrefix bpath ''/'' in
         if aslash \<and> bslash then (Path a @ slice_from (Path b) 1, apath @ slice_from bpath 1)
         else if \<not> aslash \<and> \<not> bslash then (Path a @ ''/'' @ Path b, apath @ ''/'' @ bpath)
         else (Path a @ Path b, apath @ bpath)))"

definition rewriteRequestURL :: "stdlib \<Rightarrow> Request \<Rightarrow> URL \<Rightarrow> Request" where
  "rewriteRequestURL lib req target =
     (let targetQuery = RawQuery target;
          u = req_URL req;
          (p, rp) = joinURLPath lib target u
      in req\<lparr>req_URL := u\<lparr>
           Scheme := Scheme target,
           Host := Host target,
           Path := p,
           RawPath := rp,
           RawQuery :=
             (if targetQuery = '''' \<or> RawQuery u = '''' then targetQuery @ RawQuery u
              else targetQuery @ ''&'' @ RawQuery u)\<rparr>\<rparr>)"

text \<open>\<open>ProxyRequest.SetURL\<close> and \<open>ProxyRequest.SetXForwarded\<close>.\<close>

definition SetURL :: "stdlib \<Rightarrow> ProxyRequest \<Rightarrow> URL \<Rightarrow> ProxyRequest" where
  "SetURL lib r target = r\<lparr>Out := (rewriteRequestURL lib (Out r) target)\<lparr>req_Host := ''''\<rparr>\<rparr>"

definition SetXForwarded :: "ProxyRequest \<Rightarrow> ProxyRequest" where
  "SetXForwarded r =
     (let h = req_Header (Out r);
          h1 = (case SplitHostPort (RemoteAddr (In r)) of
                  Inr (clientIP, port) \<Rightarrow>
                    (let prior = (case h ''X-Forwarded-For'' of None \<Rightarrow> [] | Some vs \<Rightarrow> vs) in
                     Header_Set h ''X-Forwarded-For''
                       (if 0 < length prior then Join prior '', '' @ '', '' @ clientIP
                        else clientIP))
                | Inl err \<Rightarrow> Header_Del h ''X-Forwarded-For'');
          h2 = Header_Set h1 ''X-Forwarded-Host'' (req_Host (In r));
          h3 = Header_Set h2 ''X-Forwarded-Proto'' (if TLS (In r) then ''https'' else ''http'')
      in r\<lparr>Out := (Out r)\<lparr>req_Header := h3\<rparr>\<rparr>)"

section \<open>The proxy handler (package internal, \<open>NewProxy\<close>)\<close>

record Dialer =
  Timeout :: Duration
  KeepAlive :: Duration

text \<open>
  \<open>http.Transport\<close>: the fields set by \<open>NewProxy\<close>, and the two protocol
  negotiation fields that \<open>http2.ConfigureTransport\<close> fills in. \<open>Dial\<close> holds
  the dialer whose \<open>Dial\<close> method the source stores.
\<close>

record Transport =
  Dial :: Dialer
  TLSHandshakeTimeout :: Duration
  ResponseHeaderTimeout :: Duration
  ExpectContinueTimeout :: Duration
  NextProtos :: "string list"
  TLSNextProto :: "string list"

text \<open>
  \<open>http2.ConfigureTransport\<close> (package golang.org/x/net/http2) registers the
  protocol \<open>h2\<close> with an HTTP/1 transport: it offers \<open>h2\<close> first and
  \<open>http/1.1\<close> last in the TLS handshake and adds the \<open>h2\<close> upgrade entry. It
  writes no other field of the transport. Its error result is dropped by the source.
\<close>

definition ConfigureTransport :: "Transport \<Rightarrow> Transport" where
  "ConfigureTransport t1 =
     (let ps = NextProtos t1;
          ps1 = (if ''h2'' \<in> set ps then ps else ''h2'' # ps);
          ps2 = (if ''http/1.1'' \<in> set ps1 then ps1 else ps1 @ [''http/1.1''])
      in t1\<lparr>NextProtos := ps2,
             TLSNextProto := (if ''h2'' \<in> set (TLSNextProto t1) then TLSNextProto t1
                              else TLSNextProto t1 @ [''h2''])\<rparr>)"

text \<open>
  \<open>httputil.ReverseProxy\<close>. A field the source leaves out has its zero value:
  \<open>None\<close> for a function that is \<open>nil\<close>.
\<close>

record ReverseProxy =
  Rewrite :: "(ProxyRequest \<Rightarrow> ProxyRequest) option"
  Director :: "(Request \<Rightarrow> Request) option"
  proxy_Transport :: Transport
  FlushInterval :: Duration
  ModifyResponse :: "(Response \<Rightarrow> error + Response) option"
  ErrorHandler :: "(Request \<Rightarrow> error \<Rightarrow> Response) option"

definition NewProxy :: "stdlib \<Rightarrow> URL \<Rightarrow> ReverseProxy" where
  "NewProxy lib target =
     (let transport = \<lparr>
            Dial = \<lparr>Timeout = 30 * Second, KeepAlive = 30 * Second\<rparr>,
            TLSHandshakeTimeout = 10 * Second,
            ResponseHeaderTimeout = 10 * Second,
            ExpectContinueTimeout = 1 * Second,
            NextProtos = [],
            TLSNextProto = []\<rparr>;
          transport = ConfigureTransport transport
      in \<lparr>Rewrite = Some (\<lambda>r. let r = SetXForwarded r in SetURL lib r target),
          Director = None,
          proxy_Transport = transport,
          FlushInterval = 10 * Millisecond,
          ModifyResponse = None,
          ErrorHandler = None\<rparr>)"

subsection \<open>\<open>ReverseProxy.ServeHTTP\<close>\<close>



text \<open>
  The request that \<open>ServeHTTP\<close> hands to the transport for an inbound request, or
  the error it reports before dispatch. The outbound request starts as a clone of the
  inbound one. With \<open>Rewrite\<close> set, the client's forwarding headers are deleted and
  the query is cleaned before \<open>Rewrite\<close> runs; with \<open>Director\<close> set, the
  client's address is appended to \<open>X-Forwarded-For\<close> (a name present with no
  value holds \<open>nil\<close> there, and the header is then left out).
\<close>

definition outbound :: "stdlib \<Rightarrow> ReverseProxy \<Rightarrow> Request \<Rightarrow> error + Request" where
  "outbound lib p req =
     (if (Director p \<noteq> None) = (Rewrite p \<noteq> None)
      then Inl (Errorf ''ReverseProxy must have exactly one of Director or Rewrite set'')
      else
        (let outreq = req;
             outreq = (case Director p of
                         None \<Rightarrow> outreq
                       | Some director \<Rightarrow>
                           (let outreq = director outreq in
                            if FormParsed outreq
                            then outreq\<lparr>req_URL := (req_URL outreq)\<lparr>RawQuery :=
                                   cleanQueryParams lib (RawQuery (req_URL outreq))\<rparr>\<rparr>
                            else outreq))
         in case connectionHeaders lib (req_Header req) (req_Header outreq) of
              Inl err \<Rightarrow> Inl err
            | Inr h \<Rightarrow>
                (let outreq = outreq\<lparr>req_Header := h\<rparr>;
                     outreq =
                       (case Rewrite p of
                          Some rewrite \<Rightarrow>
                            (let h = req_Header outreq;
                                 h = Header_Del h ''Forwarded'';
                                 h = Header_Del h ''X-Forwarded-For'';
                                 h = Header_Del h ''X-Forwarded-Host'';
                                 h = Header_Del h ''X-Forwarded-Proto'';
                                 outreq = outreq\<lparr>req_Header := h,
                                   req_URL := (req_URL outreq)\<lparr>RawQuery :=
                                     cleanQueryParams lib (RawQuery (req_URL outreq))\<rparr>\<rparr>
                             in Out (rewrite \<lparr>In = req, Out = outreq\<rparr>))
                        | None \<Rightarrow>
                            (case SplitHostPort (RemoteAddr req) of
                               Inl err \<Rightarrow> outreq
                             | Inr (clientIP, port) \<Rightarrow>
                                 (case req_Header outreq ''X-Forwarded-For'' of
                                    None \<Rightarrow> outreq\<lparr>req_Header :=
                                      Header_Set (req_Header outreq) ''X-Forwarded-For'' clientIP\<rparr>
                                  | Some prior \<Rightarrow>
                                      (if prior = [] then outreq
                                       else outreq\<lparr>req_Header :=
                                         Header_Set (req_Header outreq) ''X-Forwarded-For''
                                           (Join prior '', '' @ '', '' @ clientIP)\<rparr>))))
                 in Inr (case req_Header outreq ''User-Agent'' of
                           None \<Rightarrow> outreq\<lparr>req_Header :=
                             Header_Set (req_Header outreq) ''User-Agent'' ''''\<rparr>
                         | Some v \<Rightarrow> outreq))))"



section \<open>The server (package internal, \<open>Server\<close>)\<close>

text \<open>A bound listening socket; \<open>Addr\<close> is \<open>l.Addr().String()\<close>.\<close>

record Listener =
  Addr :: string

text \<open>\<open>http.Server\<close>: the handler and the timeouts set by \<open>NewServer\<close>.\<close>

record http_Server =
  Handler :: ReverseProxy
  ReadTimeout :: Duration
  WriteTimeout :: Duration
  IdleTimeout :: Duration
  ReadHeaderTimeout :: Duration

text \<open>The struct \<open>Server\<close>; a \<open>nil\<close> listener is \<open>None\<close>.\<close>

record Server =
  srv :: http_Server
  listener :: "Listener option"

definition NewServer :: "stdlib \<Rightarrow> URL \<Rightarrow> Server" where
  "NewServer lib target =
     (let proxy = NewProxy lib target;
          srv = \<lparr>Handler = proxy,
                 ReadTimeout = 5 * Second,
                 WriteTimeout = 10 * Second,
                 IdleTimeout = 30 * Second,
                 ReadHeaderTimeout = 2 * Second\<rparr>
      in \<lparr>srv = srv, listener = None\<rparr>)"

subsection \<open>The environment of a run\<close>

text \<open>
  What the operating system and the clients do in a run: the result of
  \<open>net.Listen\<close> for a network and an address; how the accept loop of
  \<open>http.Server.Serve\<close> ends (never, because \<open>Shutdown\<close> or \<open>Close\<close> was called
  on the server, or because accepting failed for good); and the time in nanoseconds
  that the open connections take to become idle once shutdown starts (\<open>None\<close>:
  they never do).
\<close>

datatype serve_end = NeverEnds | ShutdownCalled | AcceptFails error

record env =
  net_Listen :: "string \<Rightarrow> string \<Rightarrow> error + Listener"
  serve_end :: serve_end
  drain_time :: "int option"

text \<open>The library calls a method makes, in order.\<close>

datatype call = NetListen string string | HttpServe "Listener option"

text \<open>
  \<open>http.Server.Serve\<close> always returns an error that is not \<open>nil\<close>:
  \<open>ErrServerClosed\<close> after \<open>Shutdown\<close> or \<open>Close\<close>, the error of
  \<open>Accept\<close> otherwise. On a \<open>nil\<close> listener its call of \<open>Accept\<close> panics.
\<close>

definition http_Serve :: "env \<Rightarrow> http_Server \<Rightarrow> Listener option \<Rightarrow> error option outcome" where
  "http_Serve e s l =
     (case l of
        None \<Rightarrow> Panics NilPointerDereference
      | Some l' \<Rightarrow>
          (case serve_end e of
             NeverEnds \<Rightarrow> Blocks
           | ShutdownCalled \<Rightarrow> Returns (Some ErrServerClosed)
           | AcceptFails err \<Rightarrow> Returns (Some err)))"

text \<open>
  A context with the time in nanoseconds left until its deadline (\<open>None\<close>: no
  deadline), and \<open>context.WithTimeout\<close>.
\<close>

record Context =
  deadline :: "int option"

definition WithTimeout :: "Context \<Rightarrow> Duration \<Rightarrow> Context" where
  "WithTimeout ctx d =
     ctx\<lparr>deadline := Some (case deadline ctx of None \<Rightarrow> sint d | Some t \<Rightarrow> min t (sint d))\<rparr>"

text \<open>
  \<open>http.Server.Shutdown\<close> returns \<open>nil\<close> once every connection is idle, or the
  context's error when the deadline comes first.
\<close>

definition http_Shutdown :: "env \<Rightarrow> http_Server \<Rightarrow> Context \<Rightarrow> error option outcome" where
  "http_Shutdown e s ctx =
     (case deadline ctx of
        None \<Rightarrow> (case drain_time e of None \<Rightarrow> Blocks | Some t \<Rightarrow> Returns None)
      | Some d \<Rightarrow>
          (case drain_time e of
             None \<Rightarrow> Returns (Some DeadlineExceeded)
           | Some t \<Rightarrow> if t < d then Returns None else Returns (Some DeadlineExceeded)))"

subsection \<open>The methods of \<open>Server\<close>\<close>

text \<open>
  Each method takes the environment and the server and returns its result, the
  server afterwards and the library calls it made.
\<close>

definition Listen :: "env \<Rightarrow> Server \<Rightarrow> string \<Rightarrow> error option \<times> Server \<times> call list" where
  "Listen e s address =
     (case net_Listen e ''tcp'' address of
        Inl err \<Rightarrow>
          (Some (Errorf (''failed to create listener: '' @ Error err)), s,
           [NetListen ''tcp'' address])
      | Inr l \<Rightarrow> (None, s\<lparr>listener := Some l\<rparr>, [NetListen ''tcp'' address]))"

definition Serve :: "env \<Rightarrow> Server \<Rightarrow> error option outcome \<times> Server \<times> call list" where
  "Serve e s =
     (if listener s = None
      then (Returns (Some (Errorf ''must call Listen() before Serve()'')), s, [])
      else (http_Serve e (srv s) (listener s), s, [HttpServe (listener s)]))"

definition ListenAndServe ::
  "env \<Rightarrow> Server \<Rightarrow> string \<Rightarrow> error option outcome \<times> Server \<times> call list" where
  "ListenAndServe e s address =
     (case Listen e s address of
        (Some err, s', cs) \<Rightarrow> (Returns (Some err), s', cs)
      | (None, s', cs) \<Rightarrow>
          (http_Serve e (srv s') (listener s'), s', cs @ [HttpServe (listener s')]))"

definition Shutdown :: "env \<Rightarrow> Server \<Rightarrow> Context \<Rightarrow> error option outcome" where
  "Shutdown e s ctx =
     (let ctx = WithTimeout ctx (10 * Second) in http_Shutdown e (srv s) ctx)"

definition URL :: "Server \<Rightarrow> string outcome" where
  "URL s =
     (case listener s of
        None \<Rightarrow> Panics NilPointerDereference
      | Some l \<Rightarrow> Returns (''http://'' @ Addr l))"

text \<open>
  The composition that \<open>ListenAndServe\<close> is said to be: \<open>Listen\<close>, and on its
  success \<open>Serve\<close>.
\<close>

definition Listen_then_Serve ::
  "env \<Rightarrow> Server \<Rightarrow> string \<Rightarrow> error option outcome \<times> Server \<times> call list" where
  "Listen_then_Serve e s address =
     (case Listen e s address of
        (Some err, s', cs) \<Rightarrow> (Returns (Some err), s', cs)
      | (None, s', cs) \<Rightarrow>
          (case Serve e s' of (r, s'', cs') \<Rightarrow> (r, s'', cs @ cs')))"

section \<open>Example inputs\<close>

text \<open>
  A library instance that agrees with the Go library where the examples below call
  it: their paths need no escaping, their queries need no re-encoding and their
  headers name no hop-by-hop header.
\<close>

definition lib0 :: stdlib where
  "lib0 = \<lparr>EscapedPath = Path, reencode = (\<lambda>s. s),
           connectionHeaders = (\<lambda>inh outh. Inr outh),
           handleUpgradeResponse = (\<lambda>req res. res)\<rparr>"

text \<open>The default target of the command line, \<open>http://127.0.0.1:8000\<close>.\<close>

definition target0 :: URL where
  "target0 = \<lparr>Scheme = ''http'', Host = ''127.0.0.1:8000'', Path = '''',
               RawPath = '''', RawQuery = ''''\<rparr>"

text \<open>
  \<open>GET /anything?a=1\<close> sent to the proxy from 127.0.0.1 with the header
  \<open>X-Forwarded-For: 203.0.113.7\<close>.
\<close>

definition req0 :: Request where
  "req0 = \<lparr>req_URL = \<lparr>Scheme = '''', Host = '''', Path = ''/anything'',
                       RawPath = '''', RawQuery = ''a=1''\<rparr>,
            req_Host = ''127.0.0.1:8001'',
            req_Header = [''X-Forwarded-For'' \<mapsto> [''203.0.113.7'']],
            RemoteAddr = ''127.0.0.1:54321'', TLS = False, FormParsed = False\<rparr>"


text \<open>
  A run in which the port is free, \<open>Shutdown\<close> is called while the server serves
  and no connection is open; and a transport that finds no listener at the target.
\<close>

definition env0 :: env where
  "env0 = \<lparr>net_Listen = (\<lambda>network address. Inr \<lparr>Addr = ''127.0.0.1:41234''\<rparr>),
            serve_end = ShutdownCalled, drain_time = Some 0\<rparr>"


definition server0 :: Server where
  "server0 = NewServer lib0 target0"

text \<open>The server after \<open>Listen\<close> on an ephemeral port in the run \<open>env0\<close>.\<close>

definition server1 :: Server where
  "server1 = fst (snd (Listen env0 server0 ''127.0.0.1:0''))"

section \<open>Properties\<close>

lemmas units = Second_def Millisecond_def Microsecond_def Nanosecond_def

lemma NewProxy_fields:
  "Rewrite (NewProxy lib target) = Some (\<lambda>r. SetURL lib (SetXForwarded r) target)"
  "Director (NewProxy lib target) = None"
  "ErrorHandler (NewProxy lib target) = None"
  "ModifyResponse (NewProxy lib target) = None"
  by (simp_all add: NewProxy_def Let_def)

text \<open>
  C6: for every target, the transport built by \<open>NewProxy\<close> has a dial timeout of
  30 s, a keep-alive interval of 30 s, a TLS handshake timeout of 10 s, a response
  header timeout of 10 s and an expect-continue timeout of 1 s.
\<close>

theorem NewProxy_transport_timeouts:
  "Timeout (Dial (proxy_Transport (NewProxy lib target))) = 30 * Second \<and>
   KeepAlive (Dial (proxy_Transport (NewProxy lib target))) = 30 * Second \<and>
   TLSHandshakeTimeout (proxy_Transport (NewProxy lib target)) = 10 * Second \<and>
   ResponseHeaderTimeout (proxy_Transport (NewProxy lib target)) = 10 * Second \<and>
   ExpectContinueTimeout (proxy_Transport (NewProxy lib target)) = 1 * Second \<and>
   sint (30 * Second) = 30000000000 \<and> sint (10 * Second) = 10000000000 \<and>
   sint (1 * Second) = 1000000000"
  by (simp add: NewProxy_def ConfigureTransport_def Let_def units)



text \<open>
  C5: on a server whose listener is \<open>nil\<close>, \<open>Serve\<close> returns at once an error
  with the message \<open>must call Listen() before Serve()\<close>; it calls neither
  \<open>net.Listen\<close> nor \<open>http.Server.Serve\<close> and leaves the server as it was. A
  server fresh from \<open>NewServer\<close> is such a server.
\<close>

theorem Serve_before_Listen:
  "listener (NewServer lib target) = None \<and>
   (listener s = None \<longrightarrow>
      (\<exists>err. Serve e s = (Returns (Some err), s, []) \<and>
             Error err = ''must call Listen() before Serve()''))"
  by (simp add: Serve_def NewServer_def Let_def)

theorem Serve_before_Listen_witness:
  "listener server0 = None \<and>
   Serve env0 server0 = (Returns (Some (Errorf ''must call Listen() before Serve()'')), server0, [])"
  using Serve_before_Listen [of lib0 target0 server0 env0]
  by (auto simp add: server0_def Serve_def)

text \<open>
  C9: \<open>ListenAndServe\<close> on an address is \<open>Listen\<close> on it followed, when that
  succeeds, by \<open>Serve\<close>: the same result, the same server afterwards and the same
  library calls, whether the bind fails or succeeds.
\<close>

theorem ListenAndServe_is_Listen_then_Serve:
  "ListenAndServe e s address = Listen_then_Serve e s address"
  by (cases "net_Listen e ''tcp'' address")
     (simp_all add: ListenAndServe_def Listen_then_Serve_def Listen_def Serve_def)

text \<open>
  C10: \<open>URL\<close> on a server whose listener is \<open>nil\<close> panics with a nil
  dereference; on the server left by a successful \<open>Listen\<close> it returns
  \<open>http://\<close> followed by the address of the listener.
\<close>

theorem URL_needs_Listen:
  "(listener s = None \<longrightarrow> URL s = Panics NilPointerDereference) \<and>
   (Listen e s address = (None, s', cs) \<longrightarrow>
      (\<exists>l. net_Listen e ''tcp'' address = Inr l \<and> URL s' = Returns (''http://'' @ Addr l)))"
  by (cases "net_Listen e ''tcp'' address") (auto simp add: URL_def Listen_def)

theorem URL_needs_Listen_witness:
  "listener server0 = None \<and> URL server0 = Panics NilPointerDereference \<and>
   Listen env0 server0 ''127.0.0.1:0'' = (None, server1, [NetListen ''tcp'' ''127.0.0.1:0'']) \<and>
   URL server1 = Returns ''http://127.0.0.1:41234''"
proof -
  have n: "listener server0 = None"
    by (simp add: server0_def NewServer_def Let_def)
  have l: "Listen env0 server0 ''127.0.0.1:0'' = (None, server1, [NetListen ''tcp'' ''127.0.0.1:0''])"
    by (simp add: server1_def Listen_def env0_def)
  have a: "net_Listen env0 ''tcp'' ''127.0.0.1:0'' = Inr \<lparr>Addr = ''127.0.0.1:41234''\<rparr>"
    by (simp add: env0_def)
  from URL_needs_Listen [of server0 env0 "''127.0.0.1:0''" server1 "[NetListen ''tcp'' ''127.0.0.1:0'']"] n l a
  show ?thesis by simp
qed



subsection \<open>The outbound request of the handler built by \<open>NewProxy\<close>\<close>

lemma outbound_NewProxy:
  "outbound lib (NewProxy lib target) req =
     (case connectionHeaders lib (req_Header req) (req_Header req) of
        Inl err \<Rightarrow> Inl err
      | Inr h \<Rightarrow>
          (let h' = Header_Del (Header_Del (Header_Del (Header_Del h ''Forwarded'')
                      ''X-Forwarded-For'') ''X-Forwarded-Host'') ''X-Forwarded-Proto'';
               outreq = req\<lparr>req_Header := h',
                 req_URL := (req_URL req)\<lparr>RawQuery :=
                   cleanQueryParams lib (RawQuery (req_URL req))\<rparr>\<rparr>;
               out = Out (SetURL lib (SetXForwarded \<lparr>In = req, Out = outreq\<rparr>) target)
           in Inr (case req_Header out ''User-Agent'' of
                     None \<Rightarrow> out\<lparr>req_Header := Header_Set (req_Header out) ''User-Agent'' ''''\<rparr>
                   | Some v \<Rightarrow> out)))"
  by (cases "connectionHeaders lib (req_Header req) (req_Header req)")
     (simp_all add: outbound_def NewProxy_fields Let_def cong: option.case_cong)

lemma outbound_NewProxy_Inr:
  "connectionHeaders lib (req_Header req) (req_Header req) = Inr h \<Longrightarrow>
   \<exists>out. outbound lib (NewProxy lib target) req = Inr out"
  by (simp add: outbound_NewProxy Let_def)

lemma lib0_connectionHeaders: "connectionHeaders lib0 h h' = Inr h'"
  by (simp add: lib0_def)




lemma SetURL_header: "req_Header (Out (SetURL lib r target)) = req_Header (Out r)"
  by (simp add: SetURL_def rewriteRequestURL_def Let_def split: prod.splits)








lemma SplitHostPort_example: "SplitHostPort ''127.0.0.1:54321'' = Inr (''127.0.0.1'', ''54321'')"
  by (simp add: SplitHostPort_def LastIndexByte_def slice_def slice_from_def Let_def)

text \<open>
  C3, as amended: when the peer address of the inbound request splits into host and
  port, the outbound \<open>X-Forwarded-For\<close> header is exactly that host, whatever
  \<open>X-Forwarded-For\<close> the client sent; the outbound \<open>X-Forwarded-Host\<close> is the
  host the client asked for.
\<close>

theorem outbound_X_Forwarded_For:
  assumes "outbound lib (NewProxy lib target) req = Inr out"
    and "SplitHostPort (RemoteAddr req) = Inr (ip, port)"
  shows "req_Header out ''X-Forwarded-For'' = Some [ip] \<and>
         req_Header out ''X-Forwarded-Host'' = Some [req_Host req]"
  using assms
  by (auto simp add: outbound_NewProxy Let_def SetURL_header SetXForwarded_def
      Header_Set_def Header_Del_def split: sum.splits option.splits)

theorem outbound_X_Forwarded_For_witness:
  "\<not> isl (outbound lib0 (NewProxy lib0 target0) req0) \<and>
   SplitHostPort (RemoteAddr req0) = Inr (''127.0.0.1'', ''54321'') \<and>
   req_Header (projr (outbound lib0 (NewProxy lib0 target0) req0)) ''X-Forwarded-For''
     = Some [''127.0.0.1''] \<and>
   req_Header (projr (outbound lib0 (NewProxy lib0 target0) req0)) ''X-Forwarded-Host''
     = Some [''127.0.0.1:8001'']"
proof -
  obtain out where o: "outbound lib0 (NewProxy lib0 target0) req0 = Inr out"
    using outbound_NewProxy_Inr [OF lib0_connectionHeaders] by blast
  have s: "SplitHostPort (RemoteAddr req0) = Inr (''127.0.0.1'', ''54321'')"
    by (simp add: req0_def SplitHostPort_example)
  from outbound_X_Forwarded_For [OF o s] o s show ?thesis
    by (simp add: req0_def)
qed

text \<open>
  C3 as stated fails: the client of \<open>req0\<close> sent
  \<open>X-Forwarded-For: 203.0.113.7\<close>, and the outbound header is \<open>127.0.0.1\<close>
  alone, not \<open>203.0.113.7, 127.0.0.1\<close>.
\<close>

theorem X_Forwarded_For_counterexample:
  "\<not> isl (outbound lib0 (NewProxy lib0 target0) req0) \<and>
   req_Header req0 ''X-Forwarded-For'' = Some [''203.0.113.7''] \<and>
   SplitHostPort (RemoteAddr req0) = Inr (''127.0.0.1'', ''54321'') \<and>
   req_Header (projr (outbound lib0 (NewProxy lib0 target0) req0)) ''X-Forwarded-For''
     = Some [''127.0.0.1''] \<and>
   req_Header (projr (outbound lib0 (NewProxy lib0 target0) req0)) ''X-Forwarded-For''
     \<noteq> Some [''203.0.113.7, 127.0.0.1'']"
proof -
  obtain out where o: "outbound lib0 (NewProxy lib0 target0) req0 = Inr out"
    using outbound_NewProxy_Inr [OF lib0_connectionHeaders] by blast
  have s: "SplitHostPort (RemoteAddr req0) = Inr (''127.0.0.1'', ''54321'')"
    by (simp add: req0_def SplitHostPort_example)
  have "req_Header out ''X-Forwarded-For'' = Some [''127.0.0.1'']"
    using o s
    by (auto simp add: outbound_NewProxy Let_def SetURL_header SetXForwarded_def
        Header_Set_def Header_Del_def lib0_def split: sum.splits option.splits)
  with o s show ?thesis by (simp add: req0_def)
qed

text \<open>
  C4: in the run \<open>env0\<close> the server is bound, \<open>Shutdown\<close> is called while it
  serves and returns \<open>nil\<close>, and \<open>Serve\<close> returns the error
  \<open>http: Server closed\<close>, not \<open>nil\<close>; so does \<open>ListenAndServe\<close>, whose
  error makes \<open>main\<close> exit with status 1.
\<close>

theorem Serve_after_Shutdown_returns_error:
  "Listen env0 server0 ''127.0.0.1:0'' = (None, server1, [NetListen ''tcp'' ''127.0.0.1:0'']) \<and>
   Shutdown env0 server1 \<lparr>deadline = None\<rparr> = Returns None \<and>
   fst (Serve env0 server1) = Returns (Some ErrServerClosed) \<and>
   fst (ListenAndServe env0 server0 ''127.0.0.1:0'') = Returns (Some ErrServerClosed) \<and>
   Error ErrServerClosed = ''http: Server closed''"
proof -
  have l: "Listen env0 server0 ''127.0.0.1:0'' =
      (None, server1, [NetListen ''tcp'' ''127.0.0.1:0''])"
    by (simp add: server1_def Listen_def env0_def)
  have b: "listener server1 = Some \<lparr>Addr = ''127.0.0.1:41234''\<rparr>"
    by (simp add: server1_def Listen_def env0_def)
  have d: "Shutdown env0 server1 \<lparr>deadline = None\<rparr> = Returns None"
    by (simp add: Shutdown_def WithTimeout_def http_Shutdown_def env0_def units)
  have s: "fst (Serve env0 server1) = Returns (Some ErrServerClosed)"
    by (simp add: Serve_def b http_Serve_def env0_def)
  have ls: "fst (ListenAndServe env0 server0 ''127.0.0.1:0'') = Returns (Some ErrServerClosed)"
  proof -
    have "fst (ListenAndServe env0 server0 ''127.0.0.1:0'') =
        http_Serve env0 (srv server1) (listener server1)"
      by (simp add: ListenAndServe_def l)
    then show ?thesis
      by (simp add: b http_Serve_def env0_def)
  qed
  from l d s ls show ?thesis by simp
qed


end
